theory Spec2Isabelle
  imports Complex_Main
begin

section \<open>Data model\<close>

text \<open>
  The trade manager (\<^verbatim>\<open>src/src/alpaca_utils/trade_manager.py\<close>) and the trading loop
  (\<^verbatim>\<open>src/main_day_trader.py\<close>) talk to a broker through an SDK client and to the
  other managers of the repository. A Python float (a price, a quantity, the buying
  power, a number of seconds) is represented by the exact value of the binary64 number,
  a rational \<open>x\<close> with \<open>fl x = x\<close>. Where the trade manager computes prices (lines 71-77)
  each operation rounds its exact result to binary64, see \<open>fl\<close> below. The times of the
  trading loop are differences of datetimes, which Python computes exactly to the
  microsecond; they and the quotient \<^verbatim>\<open>time_until_close / 60\<close> are taken exactly. A
  Python exception is a value of type \<open>exn\<close>, and a call that may raise returns
  \<open>exn + 'a\<close> with \<open>Inl\<close> the exception.
\<close>

type_synonym symbol = string
type_synonym order_id = string

datatype exn = Exception string

datatype OrderSide = BUY | SELL

datatype OrderClass = SIMPLE | BRACKET | OCO | OTO

datatype OrderStatus =
    NEW | PARTIALLY_FILLED | FILLED | DONE_FOR_DAY | CANCELED | EXPIRED | REPLACED
  | PENDING_CANCEL | PENDING_REPLACE | PENDING_REVIEW | ACCEPTED | PENDING_NEW
  | ACCEPTED_FOR_BIDDING | STOPPED | REJECTED | SUSPENDED | CALCULATED | HELD

record TakeProfitRequest =
  tp_limit_price :: rat

record StopLossRequest =
  sl_stop_price :: rat
  sl_limit_price :: rat

text \<open>The two kinds of request the code builds; \<open>time_in_force\<close> is always GTC and the
  trailing stop's \<open>type\<close> always TRAILING\_STOP, so neither is a field here.\<close>

record MarketOrderRequest =
  mo_symbol :: symbol
  mo_qty :: rat
  mo_side :: OrderSide
  mo_order_class :: OrderClass
  mo_take_profit :: "TakeProfitRequest option"
  mo_stop_loss :: "StopLossRequest option"

record TrailingStopOrderRequest =
  ts_symbol :: symbol
  ts_qty :: rat
  ts_side :: OrderSide
  ts_trail_price :: "rat option"
  ts_trail_percent :: "rat option"

datatype order_request =
    Market MarketOrderRequest
  | TrailingStop TrailingStopOrderRequest

text \<open>The broker's view of an order, as far as the code reads it: \<open>ord_filled_qty\<close> is
  the value of \<^verbatim>\<open>float(order.filled_qty)\<close>, \<open>ord_qty\<close> the requested quantity.\<close>

record Order =
  ord_id :: order_id
  ord_status :: OrderStatus
  ord_qty :: rat
  ord_filled_qty :: rat

text \<open>
  The SDK client \<^verbatim>\<open>self.client\<close> over an arbitrary broker state \<open>'w\<close>. Each call
  may change the broker state and may raise. \<open>get_account\<close> yields
  \<^verbatim>\<open>float(account.buying_power)\<close>. \<open>request_error\<close> is the validation the SDK runs when
  a request object is constructed (\<open>Some e\<close>: the constructor raises \<open>e\<close>).
\<close>

record 'w TradingClient =
  get_account :: "'w \<Rightarrow> (exn + rat) \<times> 'w"
  request_error :: "order_request \<Rightarrow> exn option"
  submit_order :: "order_request \<Rightarrow> 'w \<Rightarrow> (exn + Order) \<times> 'w"
  get_order_by_id :: "order_id \<Rightarrow> 'w \<Rightarrow> (exn + Order) \<times> 'w"

text \<open>What \<^verbatim>\<open>validate_trade\<close> prints when it refuses a trade: the only place where its
  two branches differ.\<close>

datatype message =
    InsufficientToBuy rat symbol
  | InsufficientToShort rat symbol

text \<open>The observable actions, in the order they happen.\<close>

datatype event =
    GetAccount
  | SubmitOrder order_request
  | GetOrderById order_id
  | Sleep rat
  | Print message
  | CloseAllPositions

record 'w state =
  world :: 'w
  trace :: "event list"

definition emit :: "event \<Rightarrow> 'w state \<Rightarrow> 'w state" where
  "emit e s = s\<lparr>trace := trace s @ [e]\<rparr>"

definition submitted :: "event list \<Rightarrow> order_request list" where
  "submitted es = concat (map (\<lambda>e. case e of SubmitOrder r \<Rightarrow> [r] | _ \<Rightarrow> []) es)"

definition polls :: "event list \<Rightarrow> nat" where
  "polls es = length (filter (\<lambda>e. case e of GetOrderById _ \<Rightarrow> True | _ \<Rightarrow> False) es)"

section \<open>Python primitives\<close>

text \<open>\<^verbatim>\<open>str.lower\<close> on ASCII text.\<close>

definition lower_char :: "char \<Rightarrow> char" where
  "lower_char c =
     (let n = (of_char c :: nat) in if 65 \<le> n \<and> n \<le> 90 then char_of (n + 32) else c)"

definition lower :: "string \<Rightarrow> string" where
  "lower s = map lower_char s"

text \<open>Truth value of an optional float: \<^verbatim>\<open>None\<close> and \<^verbatim>\<open>0.0\<close> are false.\<close>

definition truthy :: "rat option \<Rightarrow> bool" where
  "truthy x = (case x of None \<Rightarrow> False | Some v \<Rightarrow> v \<noteq> 0)"

text \<open>To the nearest integer, a tie going to the even one.\<close>

definition round_half_even :: "rat \<Rightarrow> int" where
  "round_half_even x =
     (let f = \<lfloor>x\<rfloor>; d = x - of_int f
      in if d < 1 / 2 then f else if 1 / 2 < d then f + 1 else if even f then f else f + 1)"

text \<open>
  Binary64 arithmetic. \<open>binade x\<close> is the exponent \<open>e\<close> with \<open>2 ^ e \<le> \<bar>x\<bar> < 2 ^ (e + 1)\<close>,
  found from the bit lengths of numerator and denominator. \<open>fl x\<close> is the binary64 number
  nearest to \<open>x\<close>, a tie going to the even significand: a multiple of \<open>2 ^ (e - 52)\<close>
  (53 significant bits), of \<open>2 ^ (- 1074)\<close> below the normal range. A float operation of
  the code is the exact operation followed by \<open>fl\<close>; the literal \<^verbatim>\<open>0.003\<close> is
  \<open>fl (3 / 1000)\<close>. Magnitudes from \<open>2 ^ 1024\<close> on, where binary64 has an infinity, and
  NaN are not represented.
\<close>

function bit_length :: "int \<Rightarrow> int" where
  "bit_length n = (if n \<le> 0 then 0 else 1 + bit_length (n div 2))"
  by pat_completeness auto

termination by (relation "measure nat") auto

declare bit_length.simps [simp del]

definition pow2 :: "int \<Rightarrow> rat" where
  "pow2 e = (if 0 \<le> e then 2 ^ nat e else 1 / 2 ^ nat (- e))"

definition binade :: "rat \<Rightarrow> int" where
  "binade x =
     (case quotient_of \<bar>x\<bar> of (p, q) \<Rightarrow>
        let d = bit_length p - bit_length q
        in if pow2 d \<le> \<bar>x\<bar> then d else d - 1)"

definition fl :: "rat \<Rightarrow> rat" where
  "fl x =
     (if x = 0 then 0
      else let ulp = pow2 (max (binade x) (- 1022) - 52)
           in of_int (round_half_even (x / ulp)) * ulp)"

text \<open>\<^verbatim>\<open>round(x, 2)\<close> on a float: the exact value of \<open>x\<close> goes to the nearest multiple of
  0.01, a tie to the even one, and the result is the binary64 number nearest to that
  decimal.\<close>

definition round2 :: "rat \<Rightarrow> rat" where
  "round2 x = fl (of_int (round_half_even (x * 100)) / 100)"

text \<open>\<^verbatim>\<open>int(x)\<close> on a float truncates towards zero.\<close>

definition py_int :: "rat \<Rightarrow> int" where
  "py_int x = (if 0 \<le> x then \<lfloor>x\<rfloor> else \<lceil>x\<rceil>)"

section \<open>TradeManager\<close>

text \<open>\<^verbatim>\<open>validate_trade\<close> (lines 33-50). The account lookup is outside every
  \<^verbatim>\<open>try\<close>, so an exception of \<open>get_account\<close> reaches the caller.\<close>

definition validate_trade ::
  "'w TradingClient \<Rightarrow> symbol \<Rightarrow> rat \<Rightarrow> string \<Rightarrow> 'w state \<Rightarrow> (exn + bool) \<times> 'w state" where
  "validate_trade c symbol qty side s =
     (case get_account c (world s) of (r, w') \<Rightarrow>
        let s1 = emit GetAccount (s\<lparr>world := w'\<rparr>) in
        case r of
          Inl e \<Rightarrow> (Inl e, s1)
        | Inr buying_power \<Rightarrow>
            if lower side = ''buy'' then
              if buying_power \<le> 0 then (Inr False, emit (Print (InsufficientToBuy qty symbol)) s1)
              else (Inr True, s1)
            else
              if buying_power \<le> 0 then (Inr False, emit (Print (InsufficientToShort qty symbol)) s1)
              else (Inr True, s1))"

text \<open>Lines 67-90 of \<^verbatim>\<open>place_market_order\<close>: the request built from the arguments.
  \<open>stop_price\<close> and \<open>stop_limit_price\<close> exist only when \<open>stop_loss_price\<close> is true.\<close>

definition stop_price_of :: "string \<Rightarrow> rat \<Rightarrow> rat" where
  "stop_price_of side stop_loss_price =
     (let min_sl_distance = fl (stop_loss_price * fl (3 / 1000))
      in round2 (max stop_loss_price
                   (if lower side = ''buy'' then fl (stop_loss_price - min_sl_distance)
                    else fl (stop_loss_price + min_sl_distance))))"

definition stop_limit_price_of :: "string \<Rightarrow> rat \<Rightarrow> rat" where
  "stop_limit_price_of side stop_price =
     (let stop_limit_offset = fl (stop_price * fl (1 / 1000))
      in round2 (if lower side = ''buy'' then fl (stop_price - stop_limit_offset)
                 else fl (stop_price + stop_limit_offset)))"

definition market_order_request ::
  "symbol \<Rightarrow> rat \<Rightarrow> string \<Rightarrow> rat option \<Rightarrow> rat option \<Rightarrow> MarketOrderRequest" where
  "market_order_request symbol qty side stop_loss_price take_profit_price =
     (let order_class = (if truthy stop_loss_price \<and> truthy take_profit_price then BRACKET else SIMPLE);
          take_profit_price' =
            (if truthy take_profit_price then Some (round2 (the take_profit_price)) else None)
      in \<lparr>mo_symbol = symbol,
          mo_qty = qty,
          mo_side = (if lower side = ''buy'' then BUY else SELL),
          mo_order_class = order_class,
          mo_take_profit =
            (if truthy take_profit_price' then Some \<lparr>tp_limit_price = the take_profit_price'\<rparr>
             else None),
          mo_stop_loss =
            (if truthy stop_loss_price
             then let stop_price = stop_price_of side (the stop_loss_price);
                      stop_limit_price = stop_limit_price_of side stop_price
                  in Some \<lparr>sl_stop_price = stop_price, sl_limit_price = stop_limit_price\<rparr>
             else None)\<rparr>)"

text \<open>Construct a request and hand it to the broker inside a \<^verbatim>\<open>try\<close> whose handler
  returns \<^verbatim>\<open>None\<close>: the shape shared by both order-placing methods.\<close>

definition try_submit ::
  "'w TradingClient \<Rightarrow> order_request \<Rightarrow> 'w state \<Rightarrow> Order option \<times> 'w state" where
  "try_submit c req s =
     (case request_error c req of
        Some e \<Rightarrow> (None, s)
      | None \<Rightarrow>
          (case submit_order c req (world s) of (r, w') \<Rightarrow>
             let s1 = emit (SubmitOrder req) (s\<lparr>world := w'\<rparr>) in
             case r of Inl e \<Rightarrow> (None, s1) | Inr response \<Rightarrow> (Some response, s1)))"

text \<open>\<^verbatim>\<open>place_market_order\<close> (lines 52-99).\<close>

definition place_market_order ::
  "'w TradingClient \<Rightarrow> symbol \<Rightarrow> rat \<Rightarrow> string \<Rightarrow> rat option \<Rightarrow> rat option \<Rightarrow> 'w state
     \<Rightarrow> (exn + Order option) \<times> 'w state" where
  "place_market_order c symbol qty side stop_loss_price take_profit_price s =
     (case validate_trade c symbol qty side s of
        (Inl e, s1) \<Rightarrow> (Inl e, s1)
      | (Inr False, s1) \<Rightarrow> (Inr None, s1)
      | (Inr True, s1) \<Rightarrow>
          (case try_submit c
                  (Market (market_order_request symbol qty side stop_loss_price take_profit_price)) s1
           of (response, s2) \<Rightarrow> (Inr response, s2)))"

text \<open>\<^verbatim>\<open>place_trailing_stop_order\<close> (lines 135-172).\<close>

definition place_trailing_stop_order ::
  "'w TradingClient \<Rightarrow> symbol \<Rightarrow> rat \<Rightarrow> string \<Rightarrow> rat option \<Rightarrow> rat option \<Rightarrow> 'w state
     \<Rightarrow> (exn + Order option) \<times> 'w state" where
  "place_trailing_stop_order c symbol qty side trail_price trail_percent s =
     (let order_side = (if lower side = ''buy'' then SELL else BUY) in
      case validate_trade c symbol qty side s of
        (Inl e, s1) \<Rightarrow> (Inl e, s1)
      | (Inr False, s1) \<Rightarrow> (Inr None, s1)
      | (Inr True, s1) \<Rightarrow>
          (case try_submit c
                  (TrailingStop \<lparr>ts_symbol = symbol, ts_qty = qty, ts_side = order_side,
                                 ts_trail_price = trail_price, ts_trail_percent = trail_percent\<rparr>) s1
           of (response, s2) \<Rightarrow> (Inr response, s2)))"

text \<open>\<^verbatim>\<open>wait_for_order_fill\<close> (lines 174-205): the \<^verbatim>\<open>while waited < max_wait\<close> loop,
  with \<open>waited\<close> as an argument. Every exception inside the loop body is caught.\<close>

function wait_loop ::
  "'w TradingClient \<Rightarrow> order_id \<Rightarrow> int \<Rightarrow> int \<Rightarrow> 'w state \<Rightarrow> rat option \<times> 'w state" where
  "wait_loop c oid max_wait waited s =
     (if waited < max_wait then
        (case get_order_by_id c oid (world s) of (r, w') \<Rightarrow>
           let s1 = emit (GetOrderById oid) (s\<lparr>world := w'\<rparr>) in
           case r of
             Inl e \<Rightarrow> (None, s1)
           | Inr order \<Rightarrow>
               if ord_status order = FILLED then (Some (ord_filled_qty order), s1)
               else if ord_status order \<in> {CANCELED, REJECTED, EXPIRED} then (None, s1)
               else wait_loop c oid max_wait (waited + 1) (emit (Sleep 1) s1))
      else (None, s))"
  by pat_completeness auto
termination
  by (relation "measure (\<lambda>(c, oid, max_wait, waited, s). nat (max_wait - waited))") auto

declare wait_loop.simps [simp del]

definition wait_for_order_fill ::
  "'w TradingClient \<Rightarrow> order_id \<Rightarrow> int \<Rightarrow> 'w state \<Rightarrow> rat option \<times> 'w state" where
  "wait_for_order_fill c oid max_wait s = wait_loop c oid max_wait 0 s"

section \<open>The trading loop\<close>

text \<open>What \<^verbatim>\<open>run_day_trader\<close> reads of a price bar, a position, the account and the
  risk parameters.\<close>

record bar =
  bar_close :: rat

record position =
  pos_symbol :: symbol
  pos_qty :: rat
  pos_market_value :: rat

record account_info =
  acc_equity :: rat
  acc_cash :: rat
  acc_buying_power :: rat

record risk_params =
  rp_quantity :: rat
  rp_take_profit :: rat
  rp_trail_amount :: rat

text \<open>
  Modelled from the spec: the account manager, the market-data manager, the strategy and
  the risk manager are not among the sources. They are the capabilities of the spec's
  section 6, each a function of the broker state: the clock returns
  \<open>(current_time, is_open, next_open, next_close)\<close> with times in seconds, the bars
  are \<open>None\<close> or a list in time order, the signal is a string, and only the risk
  calculator can fail (the spec's \<open>InsufficientDataError\<close>). \<open>trade_client\<close> is the SDK
  client of \<^verbatim>\<open>trade_manager\<close>.
\<close>

record 'w Managers =
  trade_client :: "'w TradingClient"
  get_market_clock_data :: "'w \<Rightarrow> (rat \<times> bool \<times> rat \<times> rat) \<times> 'w"
  close_all_positions :: "'w \<Rightarrow> 'w"
  get_account_details :: "'w \<Rightarrow> account_info \<times> 'w"
  get_positions :: "'w \<Rightarrow> position list \<times> 'w"
  etfs :: "symbol list"
  stock_tickers :: "symbol list"
  fetch_historical_data :: "symbol \<Rightarrow> 'w \<Rightarrow> bar list option \<times> 'w"
  update_buffer :: "symbol \<Rightarrow> bar \<Rightarrow> 'w \<Rightarrow> 'w"
  generate_trade_signal :: "symbol \<Rightarrow> 'w \<Rightarrow> string \<times> 'w"
  calculate_trade_parameters ::
    "bar list \<Rightarrow> rat \<Rightarrow> account_info \<Rightarrow> position list \<Rightarrow> string \<Rightarrow> 'w \<Rightarrow> (exn + risk_params) \<times> 'w"

text \<open>Lines 179-196: after the entry order is acknowledged, wait for the fill (default
  \<open>max_wait = 10\<close>) and place the trailing stop.\<close>

definition protect_entry ::
  "'w Managers \<Rightarrow> symbol \<Rightarrow> string \<Rightarrow> rat \<Rightarrow> Order \<Rightarrow> 'w state \<Rightarrow> (exn + unit) \<times> 'w state" where
  "protect_entry m symbol trade_signal trail_amt order_response s =
     (case wait_for_order_fill (trade_client m) (ord_id order_response) 10 s of
        (filled_qty, s1) \<Rightarrow>
          if truthy filled_qty \<and> 0 < the filled_qty then
            (case place_trailing_stop_order (trade_client m) symbol (the filled_qty)
                    (lower trade_signal) (Some trail_amt) None s1
             of (Inl e, s2) \<Rightarrow> (Inl e, s2)
              | (Inr ts_response, s2) \<Rightarrow> (Inr (), s2))
          else (Inr (), s1))"

text \<open>Lines 156-201: the \<^verbatim>\<open>try\<close> around the order lifecycle. Its handler catches every
  exception and goes on to the next symbol, so only the state comes out.\<close>

definition enter_position ::
  "'w Managers \<Rightarrow> symbol \<Rightarrow> string \<Rightarrow> risk_params \<Rightarrow> 'w state \<Rightarrow> 'w state" where
  "enter_position m symbol trade_signal risk_params s =
     (case place_market_order (trade_client m) symbol (rp_quantity risk_params)
             (lower trade_signal) None (Some (rp_take_profit risk_params)) s
      of (Inl e, s1) \<Rightarrow> s1
       | (Inr None, s1) \<Rightarrow> s1
       | (Inr (Some order_response), s1) \<Rightarrow>
           snd (protect_entry m symbol trade_signal (rp_trail_amount risk_params) order_response s1))"

text \<open>Lines 123-201: what the loop does with the signal of one symbol.
  \<^verbatim>\<open>iloc[-1]\<close> raises on an empty frame.\<close>

definition trade_on_signal ::
  "'w Managers \<Rightarrow> symbol \<Rightarrow> bar list \<Rightarrow> string \<Rightarrow> 'w state \<Rightarrow> (exn + unit) \<times> 'w state" where
  "trade_on_signal m symbol symbol_data trade_signal s =
     (if trade_signal \<in> {''BUY'', ''SELL''} then
        (case get_account_details m (world s) of (account_info, w1) \<Rightarrow>
         case get_positions m w1 of (open_positions, w2) \<Rightarrow>
           let s2 = s\<lparr>world := w2\<rparr> in
           if list_ex (\<lambda>pos. pos_symbol pos = symbol) open_positions then (Inr (), s2)
           else if symbol_data = [] then (Inl (Exception ''IndexError''), s2)
           else
             let entry_price = bar_close (last symbol_data) in
             case calculate_trade_parameters m symbol_data entry_price account_info
                    open_positions trade_signal w2
             of (r, w3) \<Rightarrow>
               let s3 = s2\<lparr>world := w3\<rparr> in
               case r of
                 Inl e \<Rightarrow> (Inl e, s3)
               | Inr risk_params \<Rightarrow>
                   if rp_quantity risk_params \<le> 0 then (Inr (), s3)
                   else (Inr (), enter_position m symbol trade_signal risk_params s3))
      else (Inr (), s))"

text \<open>Lines 109-201: the body of the loop over the symbols.\<close>

definition process_symbol ::
  "'w Managers \<Rightarrow> symbol \<Rightarrow> 'w state \<Rightarrow> (exn + unit) \<times> 'w state" where
  "process_symbol m symbol s =
     (case fetch_historical_data m symbol (world s) of (symbol_data, w1) \<Rightarrow>
        case symbol_data of
          None \<Rightarrow> (Inr (), s\<lparr>world := w1\<rparr>)
        | Some rows \<Rightarrow>
            if rows = [] then (Inr (), s\<lparr>world := w1\<rparr>)
            else
              let w2 = fold (update_buffer m symbol) rows w1 in
              case generate_trade_signal m symbol w2 of (trade_signal, w3) \<Rightarrow>
                trade_on_signal m symbol rows trade_signal (s\<lparr>world := w3\<rparr>))"

text \<open>Line 108: the loop over the symbols; an exception that escapes a symbol ends it.\<close>

fun for_symbols ::
  "'w Managers \<Rightarrow> symbol list \<Rightarrow> 'w state \<Rightarrow> (exn + unit) \<times> 'w state" where
  "for_symbols m [] s = (Inr (), s)"
| "for_symbols m (symbol # rest) s =
     (case process_symbol m symbol s of
        (Inl e, s1) \<Rightarrow> (Inl e, s1)
      | (Inr u, s1) \<Rightarrow> for_symbols m rest s1)"

text \<open>Lines 79-206: one pass through the body of \<^verbatim>\<open>while True\<close>.\<close>

definition run_cycle :: "'w Managers \<Rightarrow> 'w state \<Rightarrow> (exn + unit) \<times> 'w state" where
  "run_cycle m s =
     (case get_market_clock_data m (world s) of
        ((current_time, is_open, next_open, next_close), w1) \<Rightarrow>
          let s1 = s\<lparr>world := w1\<rparr>;
              time_until_close = next_close - current_time;
              trading_start_time = next_open + 3600
          in
          if \<not> is_open then
            (let sleep_time = max (trading_start_time - current_time) 0
             in (Inr (), emit (Sleep sleep_time) s1))
          else if py_int (time_until_close / 60) \<le> 60 then
            (let s2 = emit CloseAllPositions (s1\<lparr>world := close_all_positions m w1\<rparr>);
                 sleep_time = max (trading_start_time - current_time) 0
             in (Inr (), emit (Sleep sleep_time) s2))
          else
            (case for_symbols m (etfs m @ stock_tickers m) s1 of
               (Inl e, s2) \<Rightarrow> (Inl e, s2)
             | (Inr u, s2) \<Rightarrow>
                 (let sleep_time = min time_until_close 900
                  in (Inr (), emit (Sleep sleep_time) s2))))"

text \<open>\<^verbatim>\<open>run_day_trader\<close>: the loop never ends by itself, so it is run for a number of
  cycles; \<open>Some e\<close> is the exception that ended it earlier.\<close>

fun run_day_trader :: "nat \<Rightarrow> 'w Managers \<Rightarrow> 'w state \<Rightarrow> exn option \<times> 'w state" where
  "run_day_trader 0 m s = (None, s)"
| "run_day_trader (Suc n) m s =
     (case run_cycle m s of
        (Inl e, s1) \<Rightarrow> (Some e, s1)
      | (Inr u, s1) \<Rightarrow> run_day_trader n m s1)"

section \<open>What the polls of an order observe\<close>

text \<open>To speak about \<^verbatim>\<open>wait_for_order_fill\<close>: the broker state after \<open>n\<close> polls of an
  order, what poll number \<open>n\<close> (counted from 0) observes, and whether an observation
  lets the loop go on (no exception and no terminal status).\<close>

fun broker_after :: "'w TradingClient \<Rightarrow> order_id \<Rightarrow> nat \<Rightarrow> 'w \<Rightarrow> 'w" where
  "broker_after c oid 0 w = w"
| "broker_after c oid (Suc n) w = broker_after c oid n (snd (get_order_by_id c oid w))"

definition observed :: "'w TradingClient \<Rightarrow> order_id \<Rightarrow> 'w \<Rightarrow> nat \<Rightarrow> exn + Order" where
  "observed c oid w n = fst (get_order_by_id c oid (broker_after c oid n w))"

definition pending :: "exn + Order \<Rightarrow> bool" where
  "pending r =
     (case r of Inl e \<Rightarrow> False
      | Inr order \<Rightarrow> ord_status order \<notin> {FILLED, CANCELED, REJECTED, EXPIRED})"

section \<open>A scripted broker\<close>

text \<open>A broker for the examples. Its state counts the account lookups and the polls:
  lookup number \<open>a\<close> reports \<open>buying_powers ! a\<close>, poll number \<open>p\<close> reports
  \<open>statuses ! p\<close> with 7 of the 10 requested shares filled, and either raises once its
  script is used up. Every order is accepted under the id \<open>order-1\<close>.\<close>

definition scripted_client :: "rat list \<Rightarrow> OrderStatus list \<Rightarrow> (nat \<times> nat) TradingClient" where
  "scripted_client buying_powers statuses =
     \<lparr>get_account = (\<lambda>(a, p).
        (if a < length buying_powers then Inr (buying_powers ! a)
         else Inl (Exception ''ConnectionError''), (Suc a, p))),
      request_error = (\<lambda>req. None),
      submit_order = (\<lambda>req (a, p).
        (Inr \<lparr>ord_id = ''order-1'', ord_status = ACCEPTED, ord_qty = 10, ord_filled_qty = 0\<rparr>,
         (a, p))),
      get_order_by_id = (\<lambda>oid (a, p).
        (if p < length statuses
         then Inr \<lparr>ord_id = oid, ord_status = statuses ! p, ord_qty = 10, ord_filled_qty = 7\<rparr>
         else Inl (Exception ''ConnectionError''), (a, Suc p)))\<rparr>"

text \<open>The same broker, except that it refuses every order.\<close>

definition refusing_client :: "rat list \<Rightarrow> OrderStatus list \<Rightarrow> (nat \<times> nat) TradingClient" where
  "refusing_client buying_powers statuses =
     (scripted_client buying_powers statuses)
       \<lparr>submit_order := (\<lambda>req w. (Inl (Exception ''APIError''), w))\<rparr>"

text \<open>The other managers for the examples: a fixed clock, a fixed list of positions, one
  bar per symbol, a fixed signal, and fixed risk parameters (10 shares).\<close>

definition scripted_managers ::
  "(rat \<times> bool \<times> rat \<times> rat) \<Rightarrow> position list \<Rightarrow> string \<Rightarrow> rat list \<Rightarrow> OrderStatus list
     \<Rightarrow> (nat \<times> nat) Managers" where
  "scripted_managers clock positions signal buying_powers statuses =
     \<lparr>trade_client = scripted_client buying_powers statuses,
      get_market_clock_data = (\<lambda>w. (clock, w)),
      close_all_positions = (\<lambda>w. w),
      get_account_details = (\<lambda>w.
        (\<lparr>acc_equity = 100000, acc_cash = 50000, acc_buying_power = 50000\<rparr>, w)),
      get_positions = (\<lambda>w. (positions, w)),
      etfs = [''SPY''],
      stock_tickers = [''AAPL''],
      fetch_historical_data = (\<lambda>symbol w. (Some [\<lparr>bar_close = 100\<rparr>], w)),
      update_buffer = (\<lambda>symbol row w. w),
      generate_trade_signal = (\<lambda>symbol w. (signal, w)),
      calculate_trade_parameters = (\<lambda>df entry_price account_info open_positions side w.
        (Inr \<lparr>rp_quantity = 10, rp_take_profit = 104, rp_trail_amount = 2\<rparr>, w))\<rparr>"

definition start :: "(nat \<times> nat) state" where
  "start = \<lparr>world = (0, 0), trace = []\<rparr>"

section \<open>Traces\<close>

lemma trace_emit: "trace (emit e s) = trace s @ [e]" by (simp add: emit_def)
lemma world_emit: "world (emit e s) = world s" by (simp add: emit_def)
lemma submitted_append: "submitted (xs @ ys) = submitted xs @ submitted ys" by (simp add: submitted_def)
lemma submitted_simps:
  "submitted [] = []"
  "submitted (SubmitOrder r # es) = r # submitted es"
  "submitted (GetAccount # es) = submitted es"
  "submitted (GetOrderById oid # es) = submitted es"
  "submitted (Sleep d # es) = submitted es"
  "submitted (Print msg # es) = submitted es"
  "submitted (CloseAllPositions # es) = submitted es"
  by (simp_all add: submitted_def)

lemma py_int_le: "x \<le> 60 \<Longrightarrow> py_int x \<le> 60"
  unfolding py_int_def by (auto simp: floor_le_iff ceiling_le_iff)

section \<open>The trade manager's methods\<close>

lemma validate_trade_raises:
  "get_account c (world s) = (Inl e, w1) \<Longrightarrow>
   validate_trade c symbol qty side s = (Inl e, s\<lparr>world := w1, trace := trace s @ [GetAccount]\<rparr>)"
  by (simp add: validate_trade_def emit_def Let_def)

lemma validate_trade_refuses:
  "get_account c (world s) = (Inr bp, w1) \<Longrightarrow> bp \<le> 0 \<Longrightarrow>
   validate_trade c symbol qty side s =
     (Inr False, s\<lparr>world := w1,
                  trace := trace s @ [GetAccount,
                    Print (if lower side = ''buy'' then InsufficientToBuy qty symbol
                           else InsufficientToShort qty symbol)]\<rparr>)"
  by (simp add: validate_trade_def emit_def Let_def)

lemma validate_trade_accepts:
  "get_account c (world s) = (Inr bp, w1) \<Longrightarrow> 0 < bp \<Longrightarrow>
   validate_trade c symbol qty side s = (Inr True, s\<lparr>world := w1, trace := trace s @ [GetAccount]\<rparr>)"
  by (simp add: validate_trade_def emit_def Let_def)

lemma validate_trade_submits_nothing:
  "submitted (trace (snd (validate_trade c symbol qty side s))) = submitted (trace s)"
  by (cases "get_account c (world s)")
     (auto simp: validate_trade_def emit_def submitted_append submitted_simps Let_def
           split: sum.splits)

lemma try_submit_invalid:
  "request_error c req = Some e \<Longrightarrow> try_submit c req s = (None, s)"
  by (simp add: try_submit_def)

lemma try_submit_raises:
  "request_error c req = None \<Longrightarrow> submit_order c req (world s) = (Inl e, w1) \<Longrightarrow>
   try_submit c req s = (None, s\<lparr>world := w1, trace := trace s @ [SubmitOrder req]\<rparr>)"
  by (simp add: try_submit_def emit_def)

lemma try_submit_returns:
  "request_error c req = None \<Longrightarrow> submit_order c req (world s) = (Inr response, w1) \<Longrightarrow>
   try_submit c req s = (Some response, s\<lparr>world := w1, trace := trace s @ [SubmitOrder req]\<rparr>)"
  by (simp add: try_submit_def emit_def)

lemma try_submit_submitted:
  "submitted (trace (snd (try_submit c req s))) =
     submitted (trace s) @ (if request_error c req = None then [req] else [])"
  by (cases "submit_order c req (world s)")
     (auto simp: try_submit_def emit_def submitted_append submitted_simps Let_def
           split: option.splits sum.splits)

lemma place_market_order_submitted:
  "submitted (trace (snd (place_market_order c symbol qty side sl tp s))) =
     submitted (trace s) @
       (if fst (validate_trade c symbol qty side s) = Inr True
           \<and> request_error c (Market (market_order_request symbol qty side sl tp)) = None
        then [Market (market_order_request symbol qty side sl tp)] else [])"
proof (cases "validate_trade c symbol qty side s")
  case (Pair r s1)
  have s1: "submitted (trace s1) = submitted (trace s)"
    using validate_trade_submits_nothing [of c symbol qty side s] Pair by simp
  show ?thesis
  proof (cases r)
    case (Inl e)
    with Pair s1 show ?thesis by (simp add: place_market_order_def)
  next
    case (Inr ok)
    show ?thesis
    proof (cases ok)
      case False
      with Pair Inr s1 show ?thesis by (simp add: place_market_order_def)
    next
      case True
      have "submitted (trace (snd (try_submit c (Market (market_order_request symbol qty side sl tp)) s1)))
            = submitted (trace s1) @
                (if request_error c (Market (market_order_request symbol qty side sl tp)) = None
                 then [Market (market_order_request symbol qty side sl tp)] else [])"
        by (rule try_submit_submitted)
      with Pair Inr True s1 show ?thesis
        by (simp add: place_market_order_def case_prod_unfold)
    qed
  qed
qed

text \<open>
  Claim C3. \<^verbatim>\<open>place_market_order\<close> fails closed. Once the account lookup has returned
  a buying power: if it is not positive, the result is \<^verbatim>\<open>None\<close> and no order has been
  submitted; if it is positive and constructing the request or submitting it raises, the
  result is \<^verbatim>\<open>None\<close>; and in every case the method returns instead of raising.
\<close>

theorem place_market_order_fails_closed:
  "get_account c (world s) = (Inr bp, w1) \<Longrightarrow>
   (bp \<le> 0 \<longrightarrow>
      fst (place_market_order c symbol qty side sl tp s) = Inr None
      \<and> submitted (trace (snd (place_market_order c symbol qty side sl tp s))) = submitted (trace s))
   \<and> (0 < bp \<longrightarrow>
        (request_error c (Market (market_order_request symbol qty side sl tp)) \<noteq> None
         \<or> (\<exists>e w2. submit_order c (Market (market_order_request symbol qty side sl tp)) w1 = (Inl e, w2)))
        \<longrightarrow> fst (place_market_order c symbol qty side sl tp s) = Inr None)
   \<and> (\<exists>response. fst (place_market_order c symbol qty side sl tp s) = Inr response)"
proof -
  assume acct: "get_account c (world s) = (Inr bp, w1)"
  let ?req = "Market (market_order_request symbol qty side sl tp)"
  let ?s1 = "s\<lparr>world := w1, trace := trace s @ [GetAccount]\<rparr>"
  have closed: "fst (place_market_order c symbol qty side sl tp s) = Inr None
      \<and> submitted (trace (snd (place_market_order c symbol qty side sl tp s))) = submitted (trace s)"
    if "bp \<le> 0"
    using validate_trade_refuses [OF acct that, of symbol qty side]
    by (simp add: place_market_order_def submitted_append submitted_simps)
  have "open": "place_market_order c symbol qty side sl tp s = 
           (Inr (fst (try_submit c ?req ?s1)), snd (try_submit c ?req ?s1))"
    if "0 < bp"
    using validate_trade_accepts [OF acct that, of symbol qty side]
    by (simp add: place_market_order_def case_prod_unfold)
  have invalid: "fst (place_market_order c symbol qty side sl tp s) = Inr None"
    if "0 < bp" "request_error c ?req \<noteq> None"
    using "open" [OF that(1)] that(2) by (auto simp: try_submit_invalid)
  have raised: "fst (place_market_order c symbol qty side sl tp s) = Inr None"
    if "0 < bp" "submit_order c ?req w1 = (Inl e, w2)" for e w2
  proof (cases "request_error c ?req")
    case None
    have "submit_order c ?req (world ?s1) = (Inl e, w2)" using that(2) by simp
    from try_submit_raises [OF None this] "open" [OF that(1)] show ?thesis by simp
  next
    case (Some e')
    then show ?thesis using invalid [OF that(1)] by simp
  qed
  have total: "\<exists>response. fst (place_market_order c symbol qty side sl tp s) = Inr response"
  proof (cases "bp \<le> 0")
    case True
    then show ?thesis using closed by blast
  next
    case False
    then have "0 < bp" by simp
    from "open" [OF this] show ?thesis by simp
  qed
  from closed invalid raised total show ?thesis by blast
qed

theorem place_market_order_fails_closed_witness:
  "place_market_order (scripted_client [0] []) ''SPY'' 10 ''buy'' None (Some 104) start
     = (Inr None, \<lparr>world = (1, 0), trace = [GetAccount, Print (InsufficientToBuy 10 ''SPY'')]\<rparr>)
   \<and> fst (place_market_order (refusing_client [50000] []) ''SPY'' 10 ''buy'' None (Some 104) start)
     = Inr None"
proof -
  have "get_account (scripted_client [0] []) (world start) = (Inr 0, (1, 0))"
    by (simp add: scripted_client_def start_def)
  from place_market_order_fails_closed [OF this, of "''SPY''" 10 "''buy''" None "Some 104"]
  have a: "fst (place_market_order (scripted_client [0] []) ''SPY'' 10 ''buy'' None (Some 104) start)
      = Inr None" by simp
  have "get_account (refusing_client [50000] []) (world start) = (Inr 50000, (1, 0))"
    by (simp add: refusing_client_def scripted_client_def start_def)
  from place_market_order_fails_closed [OF this, of "''SPY''" 10 "''buy''" None "Some 104"]
  have b: "fst (place_market_order (refusing_client [50000] []) ''SPY'' 10 ''buy'' None (Some 104) start)
      = Inr None" by (simp add: refusing_client_def)
  have c: "snd (place_market_order (scripted_client [0] []) ''SPY'' 10 ''buy'' None (Some 104) start)
      = \<lparr>world = (1, 0), trace = [GetAccount, Print (InsufficientToBuy 10 ''SPY'')]\<rparr>"
    by (simp add: place_market_order_def validate_trade_def scripted_client_def start_def emit_def
          lower_def lower_char_def)
  from a b c show ?thesis by (simp add: prod_eq_iff)
qed

section \<open>The polling loop\<close>

lemma polls_append: "polls (xs @ ys) = polls xs + polls ys" by (simp add: polls_def)
lemma polls_simps:
  "polls [] = 0"
  "polls (GetOrderById oid # es) = Suc (polls es)"
  "polls (Sleep d # es) = polls es"
  by (simp_all add: polls_def)

lemma polls_rounds: "polls (concat (replicate k [GetOrderById oid, Sleep 1])) = k"
  by (induction k) (simp_all add: polls_simps)

lemma broker_after_Suc:
  "broker_after c oid (Suc n) w = snd (get_order_by_id c oid (broker_after c oid n w))"
  by (induction n arbitrary: w) simp_all

lemma wait_loop_pending_step:
  assumes "waited < max_wait" and "pending (observed c oid (world s) 0)"
  shows "wait_loop c oid max_wait waited s =
         wait_loop c oid max_wait (waited + 1)
           (s\<lparr>world := snd (get_order_by_id c oid (world s)),
              trace := trace s @ [GetOrderById oid, Sleep 1]\<rparr>)"
proof (cases "get_order_by_id c oid (world s)")
  case (Pair r w')
  with assms(2) obtain order where r: "r = Inr order"
    and st: "ord_status order \<notin> {FILLED, CANCELED, REJECTED, EXPIRED}"
    by (cases r) (auto simp: pending_def observed_def)
  from st have "ord_status order \<noteq> FILLED" "ord_status order \<noteq> CANCELED"
    "ord_status order \<noteq> REJECTED" "ord_status order \<noteq> EXPIRED" by auto
  with assms(1) Pair r show ?thesis
    by (subst wait_loop.simps) (simp add: emit_def)
qed

lemma wait_loop_pending:
  "(\<forall>j<k. pending (observed c oid (world s) j)) \<Longrightarrow> waited + int k \<le> max_wait \<Longrightarrow>
   wait_loop c oid max_wait waited s =
   wait_loop c oid max_wait (waited + int k)
     (s\<lparr>world := broker_after c oid k (world s),
        trace := trace s @ concat (replicate k [GetOrderById oid, Sleep 1])\<rparr>)"
proof (induction k arbitrary: waited s)
  case 0
  then show ?case by simp
next
  case (Suc k)
  let ?s1 = "s\<lparr>world := snd (get_order_by_id c oid (world s)),
                 trace := trace s @ [GetOrderById oid, Sleep 1]\<rparr>"
  from Suc.prems have first: "pending (observed c oid (world s) 0)" and lt: "waited < max_wait"
    by auto
  have rest: "\<forall>j<k. pending (observed c oid (world ?s1) j)"
    using Suc.prems(1) by (auto simp: observed_def)
  have bound: "(waited + 1) + int k \<le> max_wait" using Suc.prems(2) by simp
  have "wait_loop c oid max_wait waited s = wait_loop c oid max_wait (waited + 1) ?s1"
    using lt first by (rule wait_loop_pending_step)
  also have "\<dots> = wait_loop c oid max_wait ((waited + 1) + int k)
       (?s1\<lparr>world := broker_after c oid k (world ?s1),
            trace := trace ?s1 @ concat (replicate k [GetOrderById oid, Sleep 1])\<rparr>)"
    using rest bound by (rule Suc.IH)
  finally show ?case by (simp add: add.assoc)
qed

lemma wait_loop_terminal:
  assumes "waited < max_wait" and that: "\<not> pending (observed c oid (world s) 0)"
  shows "wait_loop c oid max_wait waited s =
     ((case observed c oid (world s) 0 of
         Inl e \<Rightarrow> None
       | Inr order \<Rightarrow> if ord_status order = FILLED then Some (ord_filled_qty order) else None),
      s\<lparr>world := snd (get_order_by_id c oid (world s)), trace := trace s @ [GetOrderById oid]\<rparr>)"
proof (cases "get_order_by_id c oid (world s)")
  case (Pair r w')
  show ?thesis
  proof (cases r)
    case (Inl e)
    with Pair assms(1) show ?thesis
      by (subst wait_loop.simps) (simp add: emit_def observed_def)
  next
    case (Inr order)
    with that Pair have "ord_status order \<in> {FILLED, CANCELED, REJECTED, EXPIRED}"
      by (simp add: pending_def observed_def)
    with Pair Inr assms(1) show ?thesis
      by (subst wait_loop.simps) (auto simp: emit_def observed_def)
  qed
qed

lemma wait_loop_done:
  "max_wait \<le> waited \<Longrightarrow> wait_loop c oid max_wait waited s = (None, s)"
  by (subst wait_loop.simps) simp

lemma wait_first_terminal:
  assumes k: "int k < max_wait"
    and before: "\<forall>j<k. pending (observed c oid (world s) j)"
    and at: "\<not> pending (observed c oid (world s) k)"
  shows "fst (wait_for_order_fill c oid max_wait s) =
           (case observed c oid (world s) k of
              Inl e \<Rightarrow> None
            | Inr order \<Rightarrow> if ord_status order = FILLED then Some (ord_filled_qty order) else None)"
    and "polls (trace (snd (wait_for_order_fill c oid max_wait s))) = polls (trace s) + k + 1"
proof -
  let ?sk = "s\<lparr>world := broker_after c oid k (world s),
                 trace := trace s @ concat (replicate k [GetOrderById oid, Sleep 1])\<rparr>"
  have run: "wait_for_order_fill c oid max_wait s = wait_loop c oid max_wait (int k) ?sk"
    using wait_loop_pending [OF before, of 0 max_wait] k by (simp add: wait_for_order_fill_def)
  have obs: "observed c oid (world ?sk) 0 = observed c oid (world s) k"
    by (simp add: observed_def)
  have "\<not> pending (observed c oid (world ?sk) 0)" using at obs by simp
  from wait_loop_terminal [OF k this] run obs
  have res: "wait_for_order_fill c oid max_wait s =
     ((case observed c oid (world s) k of
         Inl e \<Rightarrow> None
       | Inr order \<Rightarrow> if ord_status order = FILLED then Some (ord_filled_qty order) else None),
      ?sk\<lparr>world := snd (get_order_by_id c oid (world ?sk)),
           trace := trace ?sk @ [GetOrderById oid]\<rparr>)"
    by simp
  show "fst (wait_for_order_fill c oid max_wait s) =
           (case observed c oid (world s) k of
              Inl e \<Rightarrow> None
            | Inr order \<Rightarrow> if ord_status order = FILLED then Some (ord_filled_qty order) else None)"
    by (simp add: res)
  show "polls (trace (snd (wait_for_order_fill c oid max_wait s))) = polls (trace s) + k + 1"
    by (simp add: res polls_append polls_rounds polls_simps)
qed

lemma wait_timeout:
  assumes "0 \<le> max_wait"
    and "\<forall>j. int j < max_wait \<longrightarrow> pending (observed c oid (world s) j)"
  shows "fst (wait_for_order_fill c oid max_wait s) = None"
    and "polls (trace (snd (wait_for_order_fill c oid max_wait s))) = polls (trace s) + nat max_wait"
proof -
  let ?k = "nat max_wait"
  let ?sk = "s\<lparr>world := broker_after c oid ?k (world s),
                 trace := trace s @ concat (replicate ?k [GetOrderById oid, Sleep 1])\<rparr>"
  have before: "\<forall>j<?k. pending (observed c oid (world s) j)" using assms by auto
  have "wait_for_order_fill c oid max_wait s = wait_loop c oid max_wait (int ?k) ?sk"
    using wait_loop_pending [OF before, of 0 max_wait] assms(1) by (simp add: wait_for_order_fill_def)
  also have "\<dots> = (None, ?sk)" using assms(1) by (intro wait_loop_done) simp
  finally have res: "wait_for_order_fill c oid max_wait s = (None, ?sk)" .
  show "fst (wait_for_order_fill c oid max_wait s) = None" by (simp add: res)
  show "polls (trace (snd (wait_for_order_fill c oid max_wait s))) = polls (trace s) + nat max_wait"
    by (simp add: res polls_append polls_rounds)
qed

text \<open>
  Claim C2. For \<open>max_wait \<ge> 1\<close>, let poll number \<open>k\<close> (counted from 0, with
  \<open>k < max_wait\<close>) be the first whose observation is not pending. If it raises, the
  result is \<^verbatim>\<open>None\<close>; if it observes FILLED, the result is the order's filled quantity;
  if it observes CANCELED, REJECTED or EXPIRED, the result is \<^verbatim>\<open>None\<close>; and in each
  case exactly \<open>k + 1\<close> polls were made. If all of the first \<open>max_wait\<close> observations
  are pending, the result is \<^verbatim>\<open>None\<close> after exactly \<open>max_wait\<close> polls.
\<close>

theorem wait_for_order_fill_outcomes:
  "1 \<le> max_wait \<Longrightarrow>
   (\<forall>k. int k < max_wait \<and> (\<forall>j<k. pending (observed c oid (world s) j)) \<longrightarrow>
      (case observed c oid (world s) k of
         Inl e \<Rightarrow>
           fst (wait_for_order_fill c oid max_wait s) = None
           \<and> polls (trace (snd (wait_for_order_fill c oid max_wait s))) = polls (trace s) + k + 1
       | Inr order \<Rightarrow>
           (ord_status order = FILLED \<longrightarrow>
              fst (wait_for_order_fill c oid max_wait s) = Some (ord_filled_qty order)
              \<and> polls (trace (snd (wait_for_order_fill c oid max_wait s))) = polls (trace s) + k + 1)
           \<and> (ord_status order \<in> {CANCELED, REJECTED, EXPIRED} \<longrightarrow>
              fst (wait_for_order_fill c oid max_wait s) = None
              \<and> polls (trace (snd (wait_for_order_fill c oid max_wait s))) = polls (trace s) + k + 1)))
   \<and> ((\<forall>j. int j < max_wait \<longrightarrow> pending (observed c oid (world s) j)) \<longrightarrow>
        fst (wait_for_order_fill c oid max_wait s) = None
        \<and> polls (trace (snd (wait_for_order_fill c oid max_wait s))) = polls (trace s) + nat max_wait)"
proof (intro conjI allI impI)
  fix k
  assume mw: "1 \<le> max_wait"
    and k: "int k < max_wait \<and> (\<forall>j<k. pending (observed c oid (world s) j))"
  show "case observed c oid (world s) k of
         Inl e \<Rightarrow>
           fst (wait_for_order_fill c oid max_wait s) = None
           \<and> polls (trace (snd (wait_for_order_fill c oid max_wait s))) = polls (trace s) + k + 1
       | Inr order \<Rightarrow>
           (ord_status order = FILLED \<longrightarrow>
              fst (wait_for_order_fill c oid max_wait s) = Some (ord_filled_qty order)
              \<and> polls (trace (snd (wait_for_order_fill c oid max_wait s))) = polls (trace s) + k + 1)
           \<and> (ord_status order \<in> {CANCELED, REJECTED, EXPIRED} \<longrightarrow>
              fst (wait_for_order_fill c oid max_wait s) = None
              \<and> polls (trace (snd (wait_for_order_fill c oid max_wait s))) = polls (trace s) + k + 1)"
  proof (cases "observed c oid (world s) k")
    case (Inl e)
    then have "\<not> pending (observed c oid (world s) k)" by (simp add: pending_def)
    from wait_first_terminal [OF _ _ this] k Inl show ?thesis by simp
  next
    case (Inr order)
    show ?thesis
    proof (cases "ord_status order \<in> {FILLED, CANCELED, REJECTED, EXPIRED}")
      case True
      then have "\<not> pending (observed c oid (world s) k)" using Inr by (simp add: pending_def)
      from wait_first_terminal [OF _ _ this] k Inr True show ?thesis by auto
    next
      case False
      with Inr show ?thesis by simp
    qed
  qed
next
  assume "1 \<le> max_wait" and "\<forall>j. int j < max_wait \<longrightarrow> pending (observed c oid (world s) j)"
  then show "fst (wait_for_order_fill c oid max_wait s) = None"
    using wait_timeout(1) [of max_wait c oid s] by simp
next
  assume "1 \<le> max_wait" and "\<forall>j. int j < max_wait \<longrightarrow> pending (observed c oid (world s) j)"
  then show "polls (trace (snd (wait_for_order_fill c oid max_wait s))) = polls (trace s) + nat max_wait"
    using wait_timeout(2) [of max_wait c oid s] by simp
qed

theorem wait_for_order_fill_outcomes_witness:
  "fst (wait_for_order_fill (scripted_client [] [NEW, PARTIALLY_FILLED, FILLED]) ''order-1'' 10 start)
     = Some 7
   \<and> polls (trace (snd (wait_for_order_fill (scripted_client [] [NEW, PARTIALLY_FILLED, FILLED])
                          ''order-1'' 10 start))) = 3
   \<and> fst (wait_for_order_fill (scripted_client [] [NEW, NEW, NEW]) ''order-1'' 3 start) = None
   \<and> polls (trace (snd (wait_for_order_fill (scripted_client [] [NEW, NEW, NEW])
                          ''order-1'' 3 start))) = 3"
proof -
  let ?c = "scripted_client [] [NEW, PARTIALLY_FILLED, FILLED]"
  let ?d = "scripted_client [] [NEW, NEW, NEW]"
  have o0: "observed ?c ''order-1'' (world start) 0
      = Inr \<lparr>ord_id = ''order-1'', ord_status = NEW, ord_qty = 10, ord_filled_qty = 7\<rparr>"
    by (simp add: observed_def scripted_client_def start_def)
  have o1: "observed ?c ''order-1'' (world start) (Suc 0)
      = Inr \<lparr>ord_id = ''order-1'', ord_status = PARTIALLY_FILLED, ord_qty = 10, ord_filled_qty = 7\<rparr>"
    by (simp add: observed_def scripted_client_def start_def)
  have o2: "observed ?c ''order-1'' (world start) (Suc (Suc 0))
      = Inr \<lparr>ord_id = ''order-1'', ord_status = FILLED, ord_qty = 10, ord_filled_qty = 7\<rparr>"
    by (simp add: observed_def scripted_client_def start_def)
  have before: "\<forall>j<Suc (Suc 0). pending (observed ?c ''order-1'' (world start) j)"
    by (simp add: less_Suc_eq o0 o1 pending_def)
  have mw: "(1::int) \<le> 10" by simp
  from wait_for_order_fill_outcomes [OF mw, of ?c "''order-1''" start]
  have "int (Suc (Suc 0)) < 10 \<and> (\<forall>j<Suc (Suc 0). pending (observed ?c ''order-1'' (world start) j)) \<longrightarrow>
      (case observed ?c ''order-1'' (world start) (Suc (Suc 0)) of
         Inl e \<Rightarrow>
           fst (wait_for_order_fill ?c ''order-1'' 10 start) = None
           \<and> polls (trace (snd (wait_for_order_fill ?c ''order-1'' 10 start))) = polls (trace start) + Suc (Suc 0) + 1
       | Inr order \<Rightarrow>
           (ord_status order = FILLED \<longrightarrow>
              fst (wait_for_order_fill ?c ''order-1'' 10 start) = Some (ord_filled_qty order)
              \<and> polls (trace (snd (wait_for_order_fill ?c ''order-1'' 10 start))) = polls (trace start) + Suc (Suc 0) + 1)
           \<and> (ord_status order \<in> {CANCELED, REJECTED, EXPIRED} \<longrightarrow>
              fst (wait_for_order_fill ?c ''order-1'' 10 start) = None
              \<and> polls (trace (snd (wait_for_order_fill ?c ''order-1'' 10 start))) = polls (trace start) + Suc (Suc 0) + 1))"
    by blast
  with before o2 have filled:
    "fst (wait_for_order_fill ?c ''order-1'' 10 start) = Some 7
     \<and> polls (trace (snd (wait_for_order_fill ?c ''order-1'' 10 start))) = 3"
    by (simp add: start_def polls_simps)
  have all: "\<forall>j. int j < 3 \<longrightarrow> pending (observed ?d ''order-1'' (world start) j)"
  proof (intro allI impI)
    fix j :: nat assume "int j < 3"
    then have "j = 0 \<or> j = Suc 0 \<or> j = Suc (Suc 0)" by auto
    then show "pending (observed ?d ''order-1'' (world start) j)"
      by (auto simp: observed_def scripted_client_def start_def pending_def)
  qed
  have mw3: "(1::int) \<le> 3" by simp
  from wait_for_order_fill_outcomes [OF mw3, of ?d "''order-1''" start] all
  have timeout: "fst (wait_for_order_fill ?d ''order-1'' 3 start) = None
     \<and> polls (trace (snd (wait_for_order_fill ?d ''order-1'' 3 start))) = 3"
    by (simp add: start_def polls_simps)
  from filled timeout show ?thesis by simp
qed

section \<open>The market phases\<close>

text \<open>
  Claim C8. When the clock reports the market closed, the cycle does nothing but sleep
  for \<open>max (trading_start_time - current_time) 0\<close> seconds, where
  \<open>trading_start_time = next_open + 3600\<close>, and that duration is never negative.
\<close>

theorem market_closed_sleep:
  "get_market_clock_data m (world s) = ((current_time, False, next_open, next_close), w1) \<Longrightarrow>
   run_cycle m s =
     (Inr (), s\<lparr>world := w1,
               trace := trace s @ [Sleep (max (next_open + 3600 - current_time) 0)]\<rparr>)
   \<and> 0 \<le> max (next_open + 3600 - current_time) 0"
  by (simp add: run_cycle_def emit_def)

theorem market_closed_sleep_witness:
  "run_cycle (scripted_managers (1000, False, 500, 30000) [] ''BUY'' [] []) start =
     (Inr (), \<lparr>world = (0, 0), trace = [Sleep 3100]\<rparr>)
   \<and> run_cycle (scripted_managers (9000, False, 500, 30000) [] ''BUY'' [] []) start =
     (Inr (), \<lparr>world = (0, 0), trace = [Sleep 0]\<rparr>)"
  using market_closed_sleep
          [of "scripted_managers (1000, False, 500, 30000) [] ''BUY'' [] []" start 1000 500 30000 "(0, 0)"]
        market_closed_sleep
          [of "scripted_managers (9000, False, 500, 30000) [] ''BUY'' [] []" start 9000 500 30000 "(0, 0)"]
  by (simp add: scripted_managers_def start_def)

text \<open>
  Claim C4. When the market is open and at most 3600 seconds remain until the close, the
  cycle calls \<^verbatim>\<open>close_all_positions\<close>, then sleeps until the next trading start
  (\<open>max (next_open + 3600 - current_time) 0\<close> seconds), and submits no order.
\<close>

theorem flatten_before_close:
  "get_market_clock_data m (world s) = ((current_time, True, next_open, next_close), w1) \<Longrightarrow>
   next_close - current_time \<le> 3600 \<Longrightarrow>
   run_cycle m s =
     (Inr (), s\<lparr>world := close_all_positions m w1,
               trace := trace s @ [CloseAllPositions, Sleep (max (next_open + 3600 - current_time) 0)]\<rparr>)
   \<and> submitted (trace (snd (run_cycle m s))) = submitted (trace s)"
proof -
  assume clk: "get_market_clock_data m (world s) = ((current_time, True, next_open, next_close), w1)"
    and near: "next_close - current_time \<le> 3600"
  from near have "(next_close - current_time) / 60 \<le> 60" by simp
  then have gate: "py_int ((next_close - current_time) / 60) \<le> 60" by (rule py_int_le)
  have run: "run_cycle m s =
     (Inr (), s\<lparr>world := close_all_positions m w1,
               trace := trace s @ [CloseAllPositions, Sleep (max (next_open + 3600 - current_time) 0)]\<rparr>)"
    using clk gate by (simp add: run_cycle_def emit_def)
  then show ?thesis by (simp add: submitted_append submitted_simps)
qed

theorem flatten_before_close_witness:
  "run_cycle (scripted_managers (1000, True, 70000, 4600) [] ''BUY'' [50000] [FILLED]) start =
     (Inr (), \<lparr>world = (0, 0), trace = [CloseAllPositions, Sleep 72600]\<rparr>)"
  using flatten_before_close
          [of "scripted_managers (1000, True, 70000, 4600) [] ''BUY'' [50000] [FILLED]" start
              1000 70000 4600 "(0, 0)"]
  by (simp add: scripted_managers_def start_def)

section \<open>Protecting a filled entry\<close>

lemma place_trailing_stop_order_submitted:
  "submitted (trace (snd (place_trailing_stop_order c symbol qty side trail_price trail_percent s))) =
     submitted (trace s) @
       (if fst (validate_trade c symbol qty side s) = Inr True
           \<and> request_error c (TrailingStop \<lparr>ts_symbol = symbol, ts_qty = qty,
                 ts_side = (if lower side = ''buy'' then SELL else BUY),
                 ts_trail_price = trail_price, ts_trail_percent = trail_percent\<rparr>) = None
        then [TrailingStop \<lparr>ts_symbol = symbol, ts_qty = qty,
                 ts_side = (if lower side = ''buy'' then SELL else BUY),
                 ts_trail_price = trail_price, ts_trail_percent = trail_percent\<rparr>] else [])"
proof (cases "validate_trade c symbol qty side s")
  case (Pair r s1)
  let ?req = "TrailingStop \<lparr>ts_symbol = symbol, ts_qty = qty,
                 ts_side = (if lower side = ''buy'' then SELL else BUY),
                 ts_trail_price = trail_price, ts_trail_percent = trail_percent\<rparr>"
  have s1: "submitted (trace s1) = submitted (trace s)"
    using validate_trade_submits_nothing [of c symbol qty side s] Pair by simp
  show ?thesis
  proof (cases r)
    case (Inl e)
    with Pair s1 show ?thesis by (simp add: place_trailing_stop_order_def)
  next
    case (Inr ok)
    show ?thesis
    proof (cases ok)
      case False
      with Pair Inr s1 show ?thesis by (simp add: place_trailing_stop_order_def)
    next
      case True
      have "submitted (trace (snd (try_submit c ?req s1)))
            = submitted (trace s1) @ (if request_error c ?req = None then [?req] else [])"
        by (rule try_submit_submitted)
      with Pair Inr True s1 show ?thesis
        by (simp add: place_trailing_stop_order_def case_prod_unfold Let_def)
    qed
  qed
qed

lemma wait_loop_submits_nothing:
  "submitted (trace (snd (wait_loop c oid max_wait waited s))) = submitted (trace s)"
proof (induction c oid max_wait waited s rule: wait_loop.induct)
  case (1 c oid max_wait waited s)
  show ?case
  proof (cases "waited < max_wait")
    case False
    then show ?thesis by (subst wait_loop.simps) simp
  next
    case True
    obtain r w' where g: "get_order_by_id c oid (world s) = (r, w')" by (cases "get_order_by_id c oid (world s)")
    let ?s1 = "emit (GetOrderById oid) (s\<lparr>world := w'\<rparr>)"
    have s1: "submitted (trace ?s1) = submitted (trace s)"
      by (simp add: emit_def submitted_append submitted_simps)
    show ?thesis
    proof (cases r)
      case (Inl e)
      with True g s1 show ?thesis by (subst wait_loop.simps) simp
    next
      case (Inr order)
      show ?thesis
      proof (cases "ord_status order = FILLED \<or> ord_status order \<in> {CANCELED, REJECTED, EXPIRED}")
        case True
        with \<open>waited < max_wait\<close> g Inr s1 show ?thesis by (subst wait_loop.simps) auto
      next
        case False
        then have nf: "ord_status order \<noteq> FILLED" and nt: "ord_status order \<notin> {CANCELED, REJECTED, EXPIRED}"
          by auto
        have "submitted (trace (snd (wait_loop c oid max_wait (waited + 1) (emit (Sleep 1) ?s1))))
              = submitted (trace (emit (Sleep 1) ?s1))"
          using "1.IH" [OF True g [symmetric] refl Inr nf nt] .
        also have "\<dots> = submitted (trace s)"
          by (simp add: emit_def submitted_append submitted_simps)
        finally have ih: "submitted (trace (snd (wait_loop c oid max_wait (waited + 1) (emit (Sleep 1) ?s1))))
              = submitted (trace s)" .
        have "wait_loop c oid max_wait waited s = wait_loop c oid max_wait (waited + 1) (emit (Sleep 1) ?s1)"
          using \<open>waited < max_wait\<close> g Inr nf nt by (subst wait_loop.simps) simp
        with ih show ?thesis by simp
      qed
    qed
  qed
qed

lemma wait_for_order_fill_submits_nothing:
  "submitted (trace (snd (wait_for_order_fill c oid max_wait s))) = submitted (trace s)"
  by (simp add: wait_for_order_fill_def wait_loop_submits_nothing)





lemma lower_buy: "lower ''buy'' = ''buy''"
  by (simp add: lower_def lower_char_def)

lemma lower_sell: "lower ''sell'' = ''sell''"
  by (simp add: lower_def lower_char_def)


section \<open>The market order request\<close>

text \<open>The literals of the code and some prices as binary64 numbers: \<^verbatim>\<open>99.9\<close> is not a
  binary fraction, \<^verbatim>\<open>100.0\<close> is.\<close>

lemma fl_examples:
  "fl (3 / 1000) = 3458764513820541 / 1152921504606846976"
  "fl (1 / 1000) = 1152921504606847 / 1152921504606846976"
  "fl (999 / 10) = 3514918771674317 / 35184372088832"
  "fl (1 / 250) = 1152921504606847 / 288230376151711744"
  "fl 100 = 100"
  by code_simp+

lemma round2_examples:
  "round2 100 = 100" "round2 104 = 104" "round2 (fl (1 / 250)) = 0" "0 < fl (1 / 250)"
  by code_simp+

text \<open>The stop and stop-limit prices of lines 71-75 on some inputs. At a sell with
  stop-loss 5.0 the sum \<^verbatim>\<open>5.0 + 5.0 * 0.003\<close> is a float just below 5.015 and rounds to
  5.01, where exact arithmetic would give a tie and 5.02.\<close>

lemma stop_price_examples:
  "stop_price_of ''buy'' 100 = 100"
  "stop_limit_price_of ''buy'' 100 = fl (999 / 10)"
  "stop_price_of ''sell'' 100 = fl (1003 / 10)"
  "stop_price_of ''sell'' 5 = fl (501 / 100)"
  "stop_limit_price_of ''sell'' (fl (501 / 100)) = fl (502 / 100)"
  "stop_limit_price_of ''buy'' 35 = fl (3497 / 100)"
  "stop_price_of ''buy'' (fl (1 / 250)) = 0"
  "stop_limit_price_of ''buy'' 0 = 0"
  by code_simp+

lemma place_market_order_scripted:
  "0 < bp \<Longrightarrow>
   place_market_order (scripted_client [bp] []) symbol qty side sl tp start =
     (Inr (Some \<lparr>ord_id = ''order-1'', ord_status = ACCEPTED, ord_qty = 10, ord_filled_qty = 0\<rparr>),
      \<lparr>world = (1, 0),
       trace = [GetAccount, SubmitOrder (Market (market_order_request symbol qty side sl tp))]\<rparr>)"
  by (simp add: place_market_order_def validate_trade_def try_submit_def scripted_client_def
        start_def emit_def Let_def)

text \<open>
  Claim C6. The code run at a buy order with a requested stop-loss of 100.0: the stop
  price submitted is 100.0, the requested price itself, and not 99.7 or lower, since
  \<open>max\<close> of the requested price and the lowered price returns the requested one. The
  stop-limit price is the float 99.9, the stop price less 0.1%.
\<close>

theorem stop_price_not_lowered_for_buy:
  "submitted (trace (snd (place_market_order (scripted_client [50000] []) ''SPY'' 10 ''buy''
                            (Some 100) (Some 104) start)))
   = [Market \<lparr>mo_symbol = ''SPY'', mo_qty = 10, mo_side = BUY, mo_order_class = BRACKET,
              mo_take_profit = Some \<lparr>tp_limit_price = 104\<rparr>,
              mo_stop_loss = Some \<lparr>sl_stop_price = 100, sl_limit_price = fl (999 / 10)\<rparr>\<rparr>]"
  by (simp add: place_market_order_scripted submitted_simps market_order_request_def truthy_def
        lower_buy round2_examples stop_price_examples Let_def)

text \<open>
  Against claim C7 as stated: a stop-loss price of 0 is not null, and with a take-profit
  of 104 the order submitted has class SIMPLE.
\<close>

theorem zero_stop_loss_is_simple:
  "submitted (trace (snd (place_market_order (scripted_client [50000] []) ''SPY'' 10 ''buy''
                            (Some 0) (Some 104) start)))
   = [Market \<lparr>mo_symbol = ''SPY'', mo_qty = 10, mo_side = BUY, mo_order_class = SIMPLE,
              mo_take_profit = Some \<lparr>tp_limit_price = 104\<rparr>, mo_stop_loss = None\<rparr>]"
  by (simp add: place_market_order_scripted submitted_simps market_order_request_def truthy_def
        lower_buy round2_examples Let_def)

lemma place_market_order_submits_at_most_request:
  "\<exists>rs. submitted (trace (snd (place_market_order c symbol qty side sl tp s))) = submitted (trace s) @ rs
        \<and> set rs \<subseteq> {Market (market_order_request symbol qty side sl tp)}"
  by (auto simp: place_market_order_submitted)

text \<open>
  Claim C7, amended. The request built by \<^verbatim>\<open>place_market_order\<close> has class BRACKET
  exactly when \<open>stop_loss_price\<close> and \<open>take_profit_price\<close> are both non-null and
  non-zero, and class SIMPLE otherwise; and the method submits nothing but that request.
\<close>

theorem order_class_bracket_iff_both_nonzero:
  "(mo_order_class (market_order_request symbol qty side sl tp) = BRACKET
      \<longleftrightarrow> (sl \<noteq> None \<and> sl \<noteq> Some 0 \<and> tp \<noteq> None \<and> tp \<noteq> Some 0))
   \<and> (mo_order_class (market_order_request symbol qty side sl tp) = SIMPLE
      \<longleftrightarrow> \<not> (sl \<noteq> None \<and> sl \<noteq> Some 0 \<and> tp \<noteq> None \<and> tp \<noteq> Some 0))
   \<and> (\<exists>rs. submitted (trace (snd (place_market_order c symbol qty side sl tp s)))
              = submitted (trace s) @ rs
           \<and> set rs \<subseteq> {Market (market_order_request symbol qty side sl tp)})"
proof -
  have t: "\<And>x. truthy x \<longleftrightarrow> x \<noteq> None \<and> x \<noteq> Some 0"
    by (auto simp: truthy_def split: option.splits)
  have "mo_order_class (market_order_request symbol qty side sl tp)
          = (if truthy sl \<and> truthy tp then BRACKET else SIMPLE)"
    by (simp add: market_order_request_def Let_def)
  then show ?thesis
    using place_market_order_submits_at_most_request [of c symbol qty side sl tp s]
    by (simp add: t)
qed

theorem order_class_bracket_iff_both_nonzero_witness:
  "mo_order_class (market_order_request ''SPY'' 10 ''buy'' (Some 100) (Some 104)) = BRACKET
   \<and> mo_order_class (market_order_request ''SPY'' 10 ''buy'' None (Some 104)) = SIMPLE
   \<and> mo_order_class (market_order_request ''SPY'' 10 ''buy'' (Some 0) (Some 104)) = SIMPLE"
  using order_class_bracket_iff_both_nonzero
          [of "''SPY''" 10 "''buy''" "Some 100" "Some 104" "scripted_client [50000] []" start]
        order_class_bracket_iff_both_nonzero
          [of "''SPY''" 10 "''buy''" None "Some 104" "scripted_client [50000] []" start]
        order_class_bracket_iff_both_nonzero
          [of "''SPY''" 10 "''buy''" "Some 0" "Some 104" "scripted_client [50000] []" start]
  by simp

text \<open>
  Claim C9. The code run with a take-profit price of 0.004 alone, the stop-loss being
  \<^verbatim>\<open>None\<close>. The price is a positive float, neither null nor zero, and line 67 takes it
  as supplied when it chooses the class; line 77 then rounds it to 0.0 and stores that in
  the same variable, which line 85 tests again: the test fails, and the order submitted
  has class SIMPLE and carries no take-profit leg, so no protective sub-order at all.
  The stop-loss path tests the price as it was passed (line 89): with a stop-loss of
  0.004 alone the order keeps its stop-loss leg, at the rounded prices 0.0 and 0.0.
\<close>

theorem take_profit_leg_dropped_when_price_rounds_to_zero:
  "0 < fl (1 / 250)
   \<and> submitted (trace (snd (place_market_order (scripted_client [50000] []) ''SPY'' 10 ''buy''
                               None (Some (fl (1 / 250))) start)))
     = [Market \<lparr>mo_symbol = ''SPY'', mo_qty = 10, mo_side = BUY, mo_order_class = SIMPLE,
                mo_take_profit = None, mo_stop_loss = None\<rparr>]
   \<and> submitted (trace (snd (place_market_order (scripted_client [50000] []) ''SPY'' 10 ''buy''
                               (Some (fl (1 / 250))) None start)))
     = [Market \<lparr>mo_symbol = ''SPY'', mo_qty = 10, mo_side = BUY, mo_order_class = SIMPLE,
                mo_take_profit = None,
                mo_stop_loss = Some \<lparr>sl_stop_price = 0, sl_limit_price = 0\<rparr>\<rparr>]"
proof -
  have pos: "0 < fl (1 / 250)"
    by (rule round2_examples)
  then have nz: "fl (1 / 250) \<noteq> 0"
    by simp
  show ?thesis
    using pos nz
    by (simp add: place_market_order_scripted submitted_simps market_order_request_def truthy_def
          lower_buy round2_examples stop_price_examples Let_def)
qed

section \<open>Gates on entry and on protection\<close>

text \<open>
  Claim C5. In the handling of one symbol's signal (lines 123-201): if the positions
  fetched right after the account details contain a position in that symbol, then no
  event at all is added to the trace, so no order of any kind is submitted, whatever the
  signal; for a BUY or SELL signal the step ends right after the two fetches.
\<close>

theorem existing_position_blocks_entry:
  "get_account_details m (world s) = (account_info, w1) \<Longrightarrow>
   get_positions m w1 = (open_positions, w2) \<Longrightarrow>
   \<exists>pos \<in> set open_positions. pos_symbol pos = symbol \<Longrightarrow>
   fst (trade_on_signal m symbol symbol_data trade_signal s) = Inr ()
   \<and> trace (snd (trade_on_signal m symbol symbol_data trade_signal s)) = trace s
   \<and> (trade_signal \<in> {''BUY'', ''SELL''} \<longrightarrow>
        trade_on_signal m symbol symbol_data trade_signal s = (Inr (), s\<lparr>world := w2\<rparr>))"
  by (auto simp: trade_on_signal_def list_ex_iff Let_def)

theorem existing_position_blocks_entry_witness:
  "trade_on_signal
     (scripted_managers (1000, True, 70000, 20000)
        [\<lparr>pos_symbol = ''SPY'', pos_qty = 10, pos_market_value = 1000\<rparr>] ''BUY'' [50000] [FILLED])
     ''SPY'' [\<lparr>bar_close = 100\<rparr>] ''BUY'' start
   = (Inr (), start)"
proof -
  let ?m = "scripted_managers (1000, True, 70000, 20000)
        [\<lparr>pos_symbol = ''SPY'', pos_qty = 10, pos_market_value = 1000\<rparr>] ''BUY'' [50000] [FILLED]"
  have a: "get_account_details ?m (world start)
      = (\<lparr>acc_equity = 100000, acc_cash = 50000, acc_buying_power = 50000\<rparr>, (0, 0))"
    by (simp add: scripted_managers_def start_def)
  have b: "get_positions ?m (0, 0)
      = ([\<lparr>pos_symbol = ''SPY'', pos_qty = 10, pos_market_value = 1000\<rparr>], (0, 0))"
    by (simp add: scripted_managers_def)
  have c: "\<exists>pos \<in> set [\<lparr>pos_symbol = ''SPY'', pos_qty = 10, pos_market_value = 1000\<rparr>].
             pos_symbol pos = ''SPY''"
    by simp
  from existing_position_blocks_entry [OF a b c, of "[\<lparr>bar_close = 100\<rparr>]" "''BUY''"]
  show ?thesis by (simp add: start_def)
qed

text \<open>
  Claim C10. \<^verbatim>\<open>place_trailing_stop_order\<close> validates as \<^verbatim>\<open>place_market_order\<close>
  does, by \<^verbatim>\<open>validate_trade\<close> on the side it was given (for the entry side
  \<open>buy\<close> the refusal printed is the one for buying, though the order would be a SELL):
  when the buying power is not positive it returns \<^verbatim>\<open>None\<close> and submits nothing.
  So when an entry has filled with a positive quantity and the buying power is not
  positive at that moment, the protection step submits no trailing stop.
\<close>

theorem trailing_stop_refused_without_buying_power:
  "(get_account c (world s) = (Inr bp, w1) \<and> bp \<le> 0 \<longrightarrow>
      place_trailing_stop_order c symbol qty side trail_price trail_percent s
        = (Inr None, snd (validate_trade c symbol qty side s))
      \<and> place_market_order c symbol qty side stop_loss_price take_profit_price s
        = (Inr None, snd (validate_trade c symbol qty side s))
      \<and> trace (snd (place_trailing_stop_order c symbol qty side trail_price trail_percent s))
        = trace s @ [GetAccount,
                     Print (if lower side = ''buy'' then InsufficientToBuy qty symbol
                            else InsufficientToShort qty symbol)]
      \<and> submitted (trace (snd (place_trailing_stop_order c symbol qty side trail_price trail_percent s)))
        = submitted (trace s))
   \<and> (wait_for_order_fill (trade_client m) (ord_id order_response) 10 s = (Some q, s1)
       \<and> 0 < q \<and> get_account (trade_client m) (world s1) = (Inr bp, w1) \<and> bp \<le> 0 \<longrightarrow>
      submitted (trace (snd (protect_entry m symbol trade_signal trail_amt order_response s)))
        = submitted (trace s))"
proof (intro conjI impI)
  assume h: "get_account c (world s) = (Inr bp, w1) \<and> bp \<le> 0"
  then have v: "validate_trade c symbol qty side s =
     (Inr False, s\<lparr>world := w1,
                  trace := trace s @ [GetAccount,
                    Print (if lower side = ''buy'' then InsufficientToBuy qty symbol
                           else InsufficientToShort qty symbol)]\<rparr>)"
    by (simp add: validate_trade_refuses)
  show ts: "place_trailing_stop_order c symbol qty side trail_price trail_percent s
        = (Inr None, snd (validate_trade c symbol qty side s))"
    by (simp add: place_trailing_stop_order_def v)
  show "place_market_order c symbol qty side stop_loss_price take_profit_price s
        = (Inr None, snd (validate_trade c symbol qty side s))"
    by (simp add: place_market_order_def v)
  show "trace (snd (place_trailing_stop_order c symbol qty side trail_price trail_percent s))
        = trace s @ [GetAccount,
                     Print (if lower side = ''buy'' then InsufficientToBuy qty symbol
                            else InsufficientToShort qty symbol)]"
    by (simp add: ts v)
  show "submitted (trace (snd (place_trailing_stop_order c symbol qty side trail_price trail_percent s)))
        = submitted (trace s)"
    by (simp add: ts validate_trade_submits_nothing)
next
  assume h: "wait_for_order_fill (trade_client m) (ord_id order_response) 10 s = (Some q, s1)
       \<and> 0 < q \<and> get_account (trade_client m) (world s1) = (Inr bp, w1) \<and> bp \<le> 0"
  then have w: "wait_for_order_fill (trade_client m) (ord_id order_response) 10 s = (Some q, s1)"
    and q: "0 < q" and acct: "get_account (trade_client m) (world s1) = (Inr bp, w1)"
    and bp: "bp \<le> 0" by auto
  have s1: "submitted (trace s1) = submitted (trace s)"
    using wait_for_order_fill_submits_nothing [of "trade_client m" "ord_id order_response" 10 s] w
    by simp
  have "fst (validate_trade (trade_client m) symbol q (lower trade_signal) s1) = Inr False"
    using validate_trade_refuses [OF acct bp] by simp
  then have "submitted (trace (snd (place_trailing_stop_order (trade_client m) symbol q
                 (lower trade_signal) (Some trail_amt) None s1))) = submitted (trace s1)"
    by (simp add: place_trailing_stop_order_submitted)
  moreover have "snd (protect_entry m symbol trade_signal trail_amt order_response s)
       = snd (place_trailing_stop_order (trade_client m) symbol q (lower trade_signal)
                (Some trail_amt) None s1)"
    using w q by (simp add: protect_entry_def truthy_def split: prod.splits sum.splits)
  ultimately show "submitted (trace (snd (protect_entry m symbol trade_signal trail_amt order_response s)))
        = submitted (trace s)"
    using s1 by simp
qed

lemma wait_scripted_filled:
  "wait_for_order_fill (scripted_client bps [NEW, FILLED]) ''order-1'' 10
     \<lparr>world = (1, 0), trace = []\<rparr>
   = (Some 7, \<lparr>world = (1, 2),
                trace = [GetOrderById ''order-1'', Sleep 1, GetOrderById ''order-1'']\<rparr>)"
  by (simp add: wait_for_order_fill_def wait_loop.simps scripted_client_def emit_def Let_def)

lemma scripted_account_second:
  "get_account (scripted_client [50000, 0] [NEW, FILLED]) (1, 2) = (Inr 0, (2, 2))"
  by (simp add: scripted_client_def)

theorem trailing_stop_refused_without_buying_power_witness:
  "place_trailing_stop_order (scripted_client [50000, 0] [NEW, FILLED]) ''SPY'' 7 ''buy''
       (Some 2) None \<lparr>world = (1, 2), trace = []\<rparr>
     = (Inr None,
        \<lparr>world = (2, 2), trace = [GetAccount, Print (InsufficientToBuy 7 ''SPY'')]\<rparr>)
   \<and> submitted (trace (snd (protect_entry
        (scripted_managers (1000, True, 70000, 20000) [] ''BUY'' [50000, 0] [NEW, FILLED])
        ''SPY'' ''BUY'' 2
        \<lparr>ord_id = ''order-1'', ord_status = ACCEPTED, ord_qty = 10, ord_filled_qty = 0\<rparr>
        \<lparr>world = (1, 0), trace = []\<rparr>))) = []"
proof -
  have tc: "trade_client (scripted_managers (1000, True, 70000, 20000) [] ''BUY'' [50000, 0] [NEW, FILLED])
      = scripted_client [50000, 0] [NEW, FILLED]"
    by (simp add: scripted_managers_def)
  have v: "snd (validate_trade (scripted_client [50000, 0] [NEW, FILLED]) ''SPY'' 7 ''buy''
                  \<lparr>world = (1, 2), trace = []\<rparr>)
      = \<lparr>world = (2, 2), trace = [GetAccount, Print (InsufficientToBuy 7 ''SPY'')]\<rparr>"
    using validate_trade_refuses [of "scripted_client [50000, 0] [NEW, FILLED]"
            "\<lparr>world = (1, 2), trace = []\<rparr>" 0 "(2, 2)" "''SPY''" 7 "''buy''"]
          scripted_account_second
    by (simp add: lower_buy)
  show ?thesis
    using trailing_stop_refused_without_buying_power
         [where c = "scripted_client [50000, 0] [NEW, FILLED]"
            and s = "\<lparr>world = (1, 2), trace = []\<rparr>"
            and bp = 0 and ?w1.0 = "(2, 2)" and symbol = "''SPY''" and qty = 7
            and side = "''buy''" and trail_price = "Some 2" and trail_percent = None
            and stop_loss_price = None and take_profit_price = None]
          trailing_stop_refused_without_buying_power
         [where m = "scripted_managers (1000, True, 70000, 20000) [] ''BUY'' [50000, 0] [NEW, FILLED]"
            and order_response =
              "\<lparr>ord_id = ''order-1'', ord_status = ACCEPTED, ord_qty = 10, ord_filled_qty = 0\<rparr>"
            and s = "\<lparr>world = (1, 0), trace = []\<rparr>"
            and q = 7
            and ?s1.0 = "\<lparr>world = (1, 2),
               trace = [GetOrderById ''order-1'', Sleep 1, GetOrderById ''order-1'']\<rparr>"
            and bp = 0 and ?w1.0 = "(2, 2)"
            and symbol = "''SPY''" and trade_signal = "''BUY''" and trail_amt = 2]
          scripted_account_second v tc
          wait_scripted_filled [of "[50000, 0]"]
    by (simp add: submitted_simps)
qed

section \<open>A partial fill on the scripted broker\<close>



end
